theory Spec2Isabelle
  imports Main "HOL-Library.Word"
begin

section \<open>Galileo Asset Tokeniser: the data model of main.py\<close>

text \<open>
  The pydantic models of \<^verbatim>\<open>main.py\<close> become records. Python lets two classes share a
  field name; record fields are constants, so every field carries a prefix naming its
  class: \<open>a_\<close> for \<^verbatim>\<open>Asset\<close>, \<open>ac_\<close> for \<^verbatim>\<open>AssetCreate\<close>, \<open>p_\<close> for \<^verbatim>\<open>pNFT\<close>,
  \<open>pc_\<close> for \<^verbatim>\<open>pNFTCreate\<close>. The field \<^verbatim>\<open>id\<close> is \<^verbatim>\<open>Optional[int]\<close> in the source and
  an \<open>int option\<close> here; Python integers are unbounded, hence \<open>int\<close>.
\<close>

record Asset =
  a_id :: "int option"
  a_name :: string
  a_serial_number :: string
  a_description :: string
  a_owner :: string

record AssetCreate =
  ac_name :: string
  ac_serial_number :: string
  ac_description :: string
  ac_owner :: string

record pNFT =
  p_id :: "int option"
  p_asset_id :: int
  p_token_uri :: string
  p_issued_date :: string
  p_current_owner :: string

record pNFTCreate =
  pc_asset_id :: int
  pc_token_uri :: string
  pc_current_owner :: string

record pNFTTransfer =
  new_owner :: string

text \<open>
  The four module-level globals (two lists, two counters) form the state that every
  handler receives and returns.
\<close>

record state =
  assets_db :: "Asset list"
  pnfts_db :: "pNFT list"
  asset_counter :: int
  pnft_counter :: int

definition init :: state where
  "init = \<lparr>assets_db = [], pnfts_db = [], asset_counter = 0, pnft_counter = 0\<rparr>"

text \<open>\<^verbatim>\<open>HTTPException(status_code=..., detail=...)\<close>, the only exception the module raises.\<close>

datatype HTTPException = HTTPException (status_code: int) (detail: string)

section \<open>Formatting integers and UUIDs\<close>

text \<open>
  The f-strings of the error messages format an \<^verbatim>\<open>int\<close> in decimal, with a leading minus
  sign for a negative number.
\<close>

definition dec_chars :: string where
  "dec_chars = ''0123456789''"

definition dec_digit :: "nat \<Rightarrow> char" where
  "dec_digit d = dec_chars ! (d mod 10)"

fun str_nat :: "nat \<Rightarrow> string" where
  "str_nat n = (if n < 10 then [dec_digit n] else str_nat (n div 10) @ [dec_digit (n mod 10)])"

declare str_nat.simps [simp del]

definition str_int :: "int \<Rightarrow> string" where
  "str_int i = (if i < 0 then CHR ''-'' # str_nat (nat (- i)) else str_nat (nat i))"

text \<open>
  \<^verbatim>\<open>str(uuid.uuid4())\<close>: a UUID is a 128-bit integer, printed as 32 lower-case
  hexadecimal digits (\<^verbatim>\<open>'%032x' % self.int\<close>) cut into groups of 8, 4, 4, 4 and 12 that are
  joined by hyphens. The random value is an input of the model.
\<close>

definition hex_chars :: string where
  "hex_chars = ''0123456789abcdef''"

definition hex_digit :: "nat \<Rightarrow> char" where
  "hex_digit d = hex_chars ! (d mod 16)"

fun hex_fixed :: "nat \<Rightarrow> nat \<Rightarrow> string" where
  "hex_fixed 0 n = []"
| "hex_fixed (Suc w) n = hex_fixed w (n div 16) @ [hex_digit (n mod 16)]"

definition hex32 :: "128 word \<Rightarrow> string" where
  "hex32 u = hex_fixed 32 (unat u)"

definition str_uuid :: "128 word \<Rightarrow> string" where
  "str_uuid u =
     (let h = hex32 u
      in take 8 h @ ''-'' @ take 4 (drop 8 h) @ ''-'' @ take 4 (drop 12 h) @ ''-''
         @ take 4 (drop 16 h) @ ''-'' @ drop 20 h)"

text \<open>\<^verbatim>\<open>s.replace('-', '')\<close> deletes every hyphen.\<close>

definition replace_hyphens :: "string \<Rightarrow> string" where
  "replace_hyphens s = filter (\<lambda>c. c \<noteq> CHR ''-'') s"

section \<open>Helper functions\<close>

text \<open>
  Both lookups scan the global list from the front and return the first record whose
  \<^verbatim>\<open>id\<close> equals the argument, or \<^verbatim>\<open>None\<close>. The list is passed explicitly.
\<close>

fun get_asset_by_id :: "Asset list \<Rightarrow> int \<Rightarrow> Asset option" where
  "get_asset_by_id [] asset_id = None"
| "get_asset_by_id (asset # rest) asset_id =
     (if a_id asset = Some asset_id then Some asset else get_asset_by_id rest asset_id)"

fun get_pnft_by_id :: "pNFT list \<Rightarrow> int \<Rightarrow> pNFT option" where
  "get_pnft_by_id [] pnft_id = None"
| "get_pnft_by_id (pnft # rest) pnft_id =
     (if p_id pnft = Some pnft_id then Some pnft else get_pnft_by_id rest pnft_id)"

definition generate_token_uri :: "128 word \<Rightarrow> string" where
  "generate_token_uri u = ''ipfs://Qm'' @ take 44 (replace_hyphens (str_uuid u))"

section \<open>API endpoints\<close>

text \<open>
  A handler returns what the endpoint returns (\<open>Inr\<close>) or the exception it raises
  (\<open>Inl\<close>), together with the state it leaves behind.
\<close>

datatype json = JString string | JObject "(string \<times> json) list"

definition root :: json where
  "root = JObject
     [(''message'', JString ''Welcome to Galileo Asset Tokeniser API''),
      (''version'', JString ''1.0.0''),
      (''docs'', JString ''/docs''),
      (''endpoints'', JObject
         [(''POST /assets'', JString ''Create a physical asset''),
          (''POST /pnfts'', JString ''Tokenize an existing asset''),
          (''GET /pnfts'', JString ''List all pNFTs (with optional owner filter)''),
          (''GET /pnfts/{id}'', JString ''Get pNFT details by ID''),
          (''POST /pnfts/{id}/transfer'', JString ''Transfer pNFT ownership'')])]"

definition create_asset :: "state \<Rightarrow> AssetCreate \<Rightarrow> Asset \<times> state" where
  "create_asset s asset =
     (let s1 = s\<lparr>asset_counter := asset_counter s + 1\<rparr>;
          new_asset = \<lparr>a_id = Some (asset_counter s1),
                       a_name = ac_name asset,
                       a_serial_number = ac_serial_number asset,
                       a_description = ac_description asset,
                       a_owner = ac_owner asset\<rparr>
      in (new_asset, s1\<lparr>assets_db := assets_db s1 @ [new_asset]\<rparr>))"

text \<open>
  \<^verbatim>\<open>datetime.now().isoformat()\<close> reads the clock; the string it yields is the argument
  \<open>now\<close>. A pydantic model object is always truthy, so \<^verbatim>\<open>not asset\<close> holds exactly when
  the lookup returned \<^verbatim>\<open>None\<close>.
\<close>

definition create_pnft :: "state \<Rightarrow> pNFTCreate \<Rightarrow> string \<Rightarrow> (HTTPException + pNFT) \<times> state" where
  "create_pnft s pnft now =
     (case get_asset_by_id (assets_db s) (pc_asset_id pnft) of
        None \<Rightarrow>
          (Inl (HTTPException 404
                 (''Asset with ID '' @ str_int (pc_asset_id pnft) @ '' not found'')), s)
      | Some asset \<Rightarrow>
          (let s1 = s\<lparr>pnft_counter := pnft_counter s + 1\<rparr>;
               new_pnft = \<lparr>p_id = Some (pnft_counter s1),
                           p_asset_id = pc_asset_id pnft,
                           p_token_uri = pc_token_uri pnft,
                           p_issued_date = now,
                           p_current_owner = pc_current_owner pnft\<rparr>
           in (Inr new_pnft, s1\<lparr>pnfts_db := pnfts_db s1 @ [new_pnft]\<rparr>)))"

text \<open>
  \<^verbatim>\<open>if owner:\<close> tests the truthiness of an \<^verbatim>\<open>Optional[str]\<close>: it fails for \<^verbatim>\<open>None\<close> and
  for the empty string.
\<close>

definition list_pnfts :: "state \<Rightarrow> string option \<Rightarrow> pNFT list" where
  "list_pnfts s owner =
     (case owner of
        None \<Rightarrow> pnfts_db s
      | Some ow \<Rightarrow>
          (if ow \<noteq> [] then filter (\<lambda>pnft. p_current_owner pnft = ow) (pnfts_db s)
           else pnfts_db s))"

definition get_pnft :: "state \<Rightarrow> int \<Rightarrow> HTTPException + pNFT" where
  "get_pnft s pnft_id =
     (case get_pnft_by_id (pnfts_db s) pnft_id of
        None \<Rightarrow> Inl (HTTPException 404 (''pNFT with ID '' @ str_int pnft_id @ '' not found''))
      | Some pnft \<Rightarrow> Inr pnft)"

text \<open>
  \<^verbatim>\<open>transfer_pnft\<close> works in two steps. The assignment
  \<^verbatim>\<open>pnft.current_owner = transfer.new_owner\<close> mutates the object that
  \<^verbatim>\<open>get_pnft_by_id\<close> returned, which is the first element of \<^verbatim>\<open>pnfts_db\<close> with that id
  (every element is an object of its own, built by \<^verbatim>\<open>create_pnft\<close>): this is
  \<open>assign_current_owner\<close>. The loop over \<^verbatim>\<open>enumerate(pnfts_db)\<close> then stores the object at
  the first index whose element has that id and breaks: this is \<open>store_pnft\<close>.
\<close>

fun assign_current_owner :: "pNFT list \<Rightarrow> int \<Rightarrow> string \<Rightarrow> pNFT list" where
  "assign_current_owner [] pnft_id ow = []"
| "assign_current_owner (pnft # rest) pnft_id ow =
     (if p_id pnft = Some pnft_id then pnft\<lparr>p_current_owner := ow\<rparr> # rest
      else pnft # assign_current_owner rest pnft_id ow)"

fun store_pnft :: "pNFT list \<Rightarrow> int \<Rightarrow> pNFT \<Rightarrow> pNFT list" where
  "store_pnft [] pnft_id pnft = []"
| "store_pnft (stored_pnft # rest) pnft_id pnft =
     (if p_id stored_pnft = Some pnft_id then pnft # rest
      else stored_pnft # store_pnft rest pnft_id pnft)"

definition transfer_pnft :: "state \<Rightarrow> int \<Rightarrow> pNFTTransfer \<Rightarrow> (HTTPException + pNFT) \<times> state" where
  "transfer_pnft s pnft_id transfer =
     (case get_pnft_by_id (pnfts_db s) pnft_id of
        None \<Rightarrow>
          (Inl (HTTPException 404 (''pNFT with ID '' @ str_int pnft_id @ '' not found'')), s)
      | Some found \<Rightarrow>
          (let pnft = found\<lparr>p_current_owner := new_owner transfer\<rparr>;
               db1 = assign_current_owner (pnfts_db s) pnft_id (new_owner transfer);
               db2 = store_pnft db1 pnft_id pnft
           in (Inr pnft, s\<lparr>pnfts_db := db2\<rparr>)))"

definition list_assets :: "state \<Rightarrow> Asset list" where
  "list_assets s = assets_db s"

definition get_asset :: "state \<Rightarrow> int \<Rightarrow> HTTPException + Asset" where
  "get_asset s asset_id =
     (case get_asset_by_id (assets_db s) asset_id of
        None \<Rightarrow> Inl (HTTPException 404 (''Asset with ID '' @ str_int asset_id @ '' not found''))
      | Some asset \<Rightarrow> Inr asset)"

section \<open>The service as a transition system\<close>

text \<open>
  One constructor per route, carrying the typed arguments the framework hands to the
  handler; \<open>ReqCreatePnft\<close> also carries the clock reading.
\<close>

datatype request =
    ReqRoot
  | ReqCreateAsset AssetCreate
  | ReqCreatePnft pNFTCreate string
  | ReqListPnfts "string option"
  | ReqGetPnft int
  | ReqTransferPnft int pNFTTransfer
  | ReqListAssets
  | ReqGetAsset int

datatype response =
    RespRoot json
  | RespAsset Asset
  | RespPnft pNFT
  | RespPnfts "pNFT list"
  | RespAssets "Asset list"

fun handle :: "state \<Rightarrow> request \<Rightarrow> (HTTPException + response) \<times> state" where
  "handle s ReqRoot = (Inr (RespRoot root), s)"
| "handle s (ReqCreateAsset asset) =
     (case create_asset s asset of (a, s') \<Rightarrow> (Inr (RespAsset a), s'))"
| "handle s (ReqCreatePnft pnft now) =
     (case create_pnft s pnft now of (r, s') \<Rightarrow> (map_sum (\<lambda>e. e) RespPnft r, s'))"
| "handle s (ReqListPnfts owner) = (Inr (RespPnfts (list_pnfts s owner)), s)"
| "handle s (ReqGetPnft pnft_id) = (map_sum (\<lambda>e. e) RespPnft (get_pnft s pnft_id), s)"
| "handle s (ReqTransferPnft pnft_id transfer) =
     (case transfer_pnft s pnft_id transfer of (r, s') \<Rightarrow> (map_sum (\<lambda>e. e) RespPnft r, s'))"
| "handle s ReqListAssets = (Inr (RespAssets (list_assets s)), s)"
| "handle s (ReqGetAsset asset_id) = (map_sum (\<lambda>e. e) RespAsset (get_asset s asset_id), s)"

text \<open>The state after a sequence of requests, and the log of requests with their outcomes.\<close>

fun run :: "state \<Rightarrow> request list \<Rightarrow> state" where
  "run s [] = s"
| "run s (r # rs) = run (snd (handle s r)) rs"

fun trace :: "state \<Rightarrow> request list \<Rightarrow> (request \<times> (HTTPException + response)) list" where
  "trace s [] = []"
| "trace s (r # rs) = (r, fst (handle s r)) # trace (snd (handle s r)) rs"

text \<open>The ids handed out by the successful creations of a log, in the order of the log.\<close>

fun created_asset_ids :: "(request \<times> (HTTPException + response)) list \<Rightarrow> int option list" where
  "created_asset_ids [] = []"
| "created_asset_ids ((ReqCreateAsset c, Inr (RespAsset a)) # tr) = a_id a # created_asset_ids tr"
| "created_asset_ids (x # tr) = created_asset_ids tr"

fun created_pnft_ids :: "(request \<times> (HTTPException + response)) list \<Rightarrow> int option list" where
  "created_pnft_ids [] = []"
| "created_pnft_ids ((ReqCreatePnft c now, Inr (RespPnft p)) # tr) = p_id p # created_pnft_ids tr"
| "created_pnft_ids (x # tr) = created_pnft_ids tr"

section \<open>A sample run\<close>

text \<open>
  The example of the specification: Alice registers a watch and tokenises it. The
  concrete states below are the inputs at which the theorems are instantiated.
\<close>

definition alice_watch :: AssetCreate where
  "alice_watch = \<lparr>ac_name = ''Watch'', ac_serial_number = ''SN1'',
     ac_description = ''Luxury watch'', ac_owner = ''Alice''\<rparr>"

definition alice_token :: pNFTCreate where
  "alice_token = \<lparr>pc_asset_id = 1, pc_token_uri = ''ipfs://x'', pc_current_owner = ''Alice''\<rparr>"

definition orphan_token :: pNFTCreate where
  "orphan_token = \<lparr>pc_asset_id = 7, pc_token_uri = ''ipfs://y'', pc_current_owner = ''Carol''\<rparr>"

definition sample_requests :: "request list" where
  "sample_requests =
     [ReqCreateAsset alice_watch, ReqCreatePnft alice_token ''2024-01-01T00:00:00'']"

definition sample_asset :: Asset where
  "sample_asset = \<lparr>a_id = Some 1, a_name = ''Watch'', a_serial_number = ''SN1'',
     a_description = ''Luxury watch'', a_owner = ''Alice''\<rparr>"

definition sample_pnft :: pNFT where
  "sample_pnft = \<lparr>p_id = Some 1, p_asset_id = 1, p_token_uri = ''ipfs://x'',
     p_issued_date = ''2024-01-01T00:00:00'', p_current_owner = ''Alice''\<rparr>"

definition sample_state :: state where
  "sample_state = \<lparr>assets_db = [sample_asset], pnfts_db = [sample_pnft],
     asset_counter = 1, pnft_counter = 1\<rparr>"

definition to_bob :: pNFTTransfer where
  "to_bob = \<lparr>new_owner = ''Bob''\<rparr>"

definition gap_requests :: "request list" where
  "gap_requests =
     [ReqCreateAsset alice_watch,
      ReqCreatePnft orphan_token ''2024-01-01T00:00:00'',
      ReqCreatePnft alice_token ''2024-01-02T00:00:00'',
      ReqGetPnft 9,
      ReqCreateAsset alice_watch,
      ReqTransferPnft 1 to_bob,
      ReqCreatePnft alice_token ''2024-01-03T00:00:00'']"

text \<open>A version-4 UUID, \<^verbatim>\<open>123e4567-e89b-42d3-a456-426614174000\<close>, as its 128-bit integer.\<close>

definition sample_uuid :: "128 word" where
  "sample_uuid = 0x123e4567e89b42d3a456426614174000"

section \<open>Facts about the lookups and the transfer steps\<close>

lemma run_sample_requests: "run init sample_requests = sample_state"
  by (simp add: sample_requests_def sample_state_def sample_asset_def sample_pnft_def init_def
      alice_watch_def alice_token_def create_asset_def create_pnft_def Let_def)

lemma get_asset_by_id_None: "get_asset_by_id db i = None \<longleftrightarrow> Some i \<notin> set (map a_id db)"
  by (induction db) auto

lemma get_asset_by_id_Some: "get_asset_by_id db i = Some a \<Longrightarrow> a \<in> set db \<and> a_id a = Some i"
  by (induction db) (auto split: if_splits)


lemma get_pnft_by_id_None: "get_pnft_by_id db i = None \<longleftrightarrow> Some i \<notin> set (map p_id db)"
  by (induction db) auto

lemma get_pnft_by_id_distinct:
  "distinct (map p_id db) \<Longrightarrow> q \<in> set db \<Longrightarrow> p_id q = Some i \<Longrightarrow> get_pnft_by_id db i = Some q"
  by (induction db) (auto simp: rev_image_eqI)

lemma map_p_id_assign: "map p_id (assign_current_owner db i w) = map p_id db"
  by (induction db) auto

lemma map_p_asset_id_assign: "map p_asset_id (assign_current_owner db i w) = map p_asset_id db"
  by (induction db) auto

text \<open>
  After the assignment the loop writes the object back onto itself: the second step of
  the transfer changes nothing.
\<close>

lemma store_pnft_after_assign:
  "get_pnft_by_id db i = Some p \<Longrightarrow>
   store_pnft (assign_current_owner db i w) i (p\<lparr>p_current_owner := w\<rparr>) =
     assign_current_owner db i w"
  by (induction db) (auto split: if_splits)

lemma get_pnft_by_id_after_assign:
  "get_pnft_by_id db i = Some p \<Longrightarrow>
   get_pnft_by_id (assign_current_owner db i w) i = Some (p\<lparr>p_current_owner := w\<rparr>)"
  by (induction db) (auto split: if_splits)

lemma get_pnft_by_id_other_assign:
  "j \<noteq> i \<Longrightarrow> get_pnft_by_id (assign_current_owner db i w) j = get_pnft_by_id db j"
  by (induction db) (auto split: if_splits)

lemma transfer_pnft_found:
  assumes "get_pnft_by_id (pnfts_db s) i = Some p"
  shows "transfer_pnft s i t =
      (Inr (p\<lparr>p_current_owner := new_owner t\<rparr>),
       s\<lparr>pnfts_db := assign_current_owner (pnfts_db s) i (new_owner t)\<rparr>)"
  using assms by (simp add: transfer_pnft_def Let_def store_pnft_after_assign)

section \<open>Transfer\<close>

text \<open>
  Claim C1. If some stored pNFT carries the id, then \<open>transfer_pnft\<close> succeeds on the
  record \<open>p\<close> that \<open>get_pnft\<close> finds for that id (the stored record itself when ids are
  distinct): the returned record has \<open>new_owner\<close> as its current owner and the id,
  asset id, token URI and issue date of \<open>p\<close>; a following \<open>get_pnft\<close> of the same id
  returns that record, so its current owner is the new owner. Nothing else moves: the
  assets, both counters and the record found for any other id stay as they were.
\<close>

theorem transfer_pnft_updates_owner:
  assumes "q \<in> set (pnfts_db s)" and "p_id q = Some pnft_id"
  shows "\<exists>p p' s'.
           get_pnft s pnft_id = Inr p
         \<and> (distinct (map p_id (pnfts_db s)) \<longrightarrow> p = q)
         \<and> transfer_pnft s pnft_id t = (Inr p', s')
         \<and> p_current_owner p' = new_owner t
         \<and> p_id p' = p_id p \<and> p_asset_id p' = p_asset_id p
         \<and> p_token_uri p' = p_token_uri p \<and> p_issued_date p' = p_issued_date p
         \<and> get_pnft s' pnft_id = Inr p'
         \<and> length (pnfts_db s') = length (pnfts_db s)
         \<and> assets_db s' = assets_db s \<and> asset_counter s' = asset_counter s
         \<and> pnft_counter s' = pnft_counter s
         \<and> (\<forall>j. j \<noteq> pnft_id \<longrightarrow> get_pnft s' j = get_pnft s j)"
proof -
  from assms have "Some pnft_id \<in> set (map p_id (pnfts_db s))"
    by (metis image_eqI set_map)
  then obtain p where p: "get_pnft_by_id (pnfts_db s) pnft_id = Some p"
    using get_pnft_by_id_None [of "pnfts_db s" pnft_id] by auto
  have same: "distinct (map p_id (pnfts_db s)) \<longrightarrow> p = q"
    using get_pnft_by_id_distinct [OF _ assms] p by auto
  have len: "length (assign_current_owner (pnfts_db s) pnft_id (new_owner t)) = length (pnfts_db s)"
    using map_p_id_assign [of "pnfts_db s" pnft_id "new_owner t"] by (metis length_map)
  show ?thesis
    using p same len
    by (simp add: transfer_pnft_found get_pnft_def get_pnft_by_id_after_assign
        get_pnft_by_id_other_assign)
qed

theorem transfer_pnft_updates_owner_witness:
  "sample_pnft \<in> set (pnfts_db (run init sample_requests))
   \<and> p_id sample_pnft = Some 1
   \<and> distinct (map p_id (pnfts_db (run init sample_requests)))
   \<and> transfer_pnft (run init sample_requests) 1 to_bob =
       (Inr (sample_pnft\<lparr>p_current_owner := ''Bob''\<rparr>),
        sample_state\<lparr>pnfts_db := [sample_pnft\<lparr>p_current_owner := ''Bob''\<rparr>]\<rparr>)
   \<and> get_pnft (sample_state\<lparr>pnfts_db := [sample_pnft\<lparr>p_current_owner := ''Bob''\<rparr>]\<rparr>) 1 =
       Inr (sample_pnft\<lparr>p_current_owner := ''Bob''\<rparr>)"
proof -
  have h1: "sample_pnft \<in> set (pnfts_db (run init sample_requests))"
    by (simp add: run_sample_requests sample_state_def)
  have h2: "p_id sample_pnft = Some 1"
    by (simp add: sample_pnft_def)
  have h3: "distinct (map p_id (pnfts_db (run init sample_requests)))"
    by (simp add: run_sample_requests sample_state_def)
  from transfer_pnft_updates_owner [OF h1 h2, of to_bob] h3
  obtain p' s' where
    t: "transfer_pnft (run init sample_requests) 1 to_bob = (Inr p', s')"
    and o: "p_current_owner p' = new_owner to_bob"
    and g: "get_pnft s' 1 = Inr p'"
    by blast
  have e: "transfer_pnft (run init sample_requests) 1 to_bob =
       (Inr (sample_pnft\<lparr>p_current_owner := ''Bob''\<rparr>),
        sample_state\<lparr>pnfts_db := [sample_pnft\<lparr>p_current_owner := ''Bob''\<rparr>]\<rparr>)"
    by (simp add: run_sample_requests sample_state_def sample_pnft_def to_bob_def
        transfer_pnft_def Let_def)
  from t e g have "get_pnft (sample_state\<lparr>pnfts_db := [sample_pnft\<lparr>p_current_owner := ''Bob''\<rparr>]\<rparr>) 1 =
       Inr (sample_pnft\<lparr>p_current_owner := ''Bob''\<rparr>)"
    by auto
  with h1 h2 h3 e show ?thesis by blast
qed

section \<open>Creating a pNFT for an unknown asset\<close>

text \<open>
  Claim C2. When the lookup of \<open>asset_id\<close> in the asset store finds nothing,
  \<open>create_pnft\<close> raises the HTTP exception with status 404 and leaves the whole state,
  the pNFT store included, as it was.
\<close>

theorem create_pnft_unknown_asset:
  assumes "get_asset_by_id (assets_db s) (pc_asset_id pnft) = None"
  shows "\<exists>e. create_pnft s pnft now = (Inl e, s) \<and> status_code e = 404
             \<and> pnfts_db (snd (create_pnft s pnft now)) = pnfts_db s"
  using assms by (simp add: create_pnft_def)

theorem create_pnft_unknown_asset_witness:
  "get_asset_by_id (assets_db sample_state) (pc_asset_id orphan_token) = None
   \<and> (\<exists>e. create_pnft sample_state orphan_token ''2024-01-02T00:00:00'' = (Inl e, sample_state)
          \<and> status_code e = 404
          \<and> pnfts_db (snd (create_pnft sample_state orphan_token ''2024-01-02T00:00:00'')) =
              [sample_pnft])"
proof -
  have h: "get_asset_by_id (assets_db sample_state) (pc_asset_id orphan_token) = None"
    by (simp add: sample_state_def sample_asset_def orphan_token_def)
  have db: "pnfts_db sample_state = [sample_pnft]"
    by (simp add: sample_state_def)
  show ?thesis
    using h create_pnft_unknown_asset [OF h, of "''2024-01-02T00:00:00''"] unfolding db by blast
qed

section \<open>Listing pNFTs\<close>

text \<open>
  Claim C3, as amended. For every non-empty owner string, \<open>list_pnfts\<close> returns the
  stored pNFTs whose current owner equals that string, in the order of the store, and
  without a filter it returns the whole store. (The claim as written also covers the
  empty string, where the code returns the whole store.)
\<close>

theorem list_pnfts_filter:
  "(owner \<noteq> [] \<longrightarrow>
      list_pnfts s (Some owner) = filter (\<lambda>pnft. p_current_owner pnft = owner) (pnfts_db s))
   \<and> list_pnfts s None = pnfts_db s"
  by (simp add: list_pnfts_def)

theorem list_pnfts_filter_witness:
  "''Bob'' \<noteq> []
   \<and> list_pnfts (snd (transfer_pnft sample_state 1 to_bob)) (Some ''Bob'') =
       [sample_pnft\<lparr>p_current_owner := ''Bob''\<rparr>]
   \<and> list_pnfts (snd (transfer_pnft sample_state 1 to_bob)) (Some ''Alice'') = []
   \<and> list_pnfts sample_state None = [sample_pnft]"
  using list_pnfts_filter [of "''Bob''" "snd (transfer_pnft sample_state 1 to_bob)"]
    list_pnfts_filter [of "''Alice''" "snd (transfer_pnft sample_state 1 to_bob)"]
    list_pnfts_filter [of "''Bob''" sample_state]
  by (simp add: sample_state_def sample_pnft_def to_bob_def transfer_pnft_def Let_def)

text \<open>
  The claim as written fails for the empty filter: the store holds Alice's pNFT, no
  stored pNFT has the empty string as its owner, and yet the listing is not empty.
\<close>

theorem list_pnfts_empty_filter_counterexample:
  "list_pnfts sample_state (Some '''') \<noteq>
     filter (\<lambda>pnft. p_current_owner pnft = '''') (pnfts_db sample_state)"
  by (simp add: list_pnfts_def sample_state_def sample_pnft_def)

text \<open>
  Claim C9. With the empty string as owner filter, \<open>list_pnfts\<close> returns every stored
  pNFT, whatever its current owner.
\<close>

theorem list_pnfts_empty_string:
  "list_pnfts s (Some '''') = pnfts_db s"
  by (simp add: list_pnfts_def)

section \<open>How a request changes the state\<close>

text \<open>
  A request either creates an asset, and then the counter goes up by one, the new id is
  appended to the ids of the store and is the id the log records, or it leaves counter,
  stored ids and log of created assets alone. The same holds for pNFTs.
\<close>

lemma handle_asset_step:
  "(asset_counter (snd (handle s r)) = asset_counter s + 1
      \<and> map a_id (assets_db (snd (handle s r))) = map a_id (assets_db s) @ [Some (asset_counter s + 1)]
      \<and> created_asset_ids ((r, fst (handle s r)) # tr) =
          Some (asset_counter s + 1) # created_asset_ids tr)
   \<or> (asset_counter (snd (handle s r)) = asset_counter s
      \<and> map a_id (assets_db (snd (handle s r))) = map a_id (assets_db s)
      \<and> created_asset_ids ((r, fst (handle s r)) # tr) = created_asset_ids tr)"
  by (cases r)
     (auto simp: create_asset_def create_pnft_def transfer_pnft_def get_pnft_def get_asset_def
           Let_def split: option.splits)

lemma handle_pnft_step:
  "(pnft_counter (snd (handle s r)) = pnft_counter s + 1
      \<and> map p_id (pnfts_db (snd (handle s r))) = map p_id (pnfts_db s) @ [Some (pnft_counter s + 1)]
      \<and> created_pnft_ids ((r, fst (handle s r)) # tr) =
          Some (pnft_counter s + 1) # created_pnft_ids tr)
   \<or> (pnft_counter (snd (handle s r)) = pnft_counter s
      \<and> map p_id (pnfts_db (snd (handle s r))) = map p_id (pnfts_db s)
      \<and> created_pnft_ids ((r, fst (handle s r)) # tr) = created_pnft_ids tr)"
  by (cases r)
     (auto simp: create_asset_def create_pnft_def transfer_pnft_def get_pnft_def get_asset_def
           Let_def map_p_id_assign store_pnft_after_assign split: option.splits)

lemma upto_from_shift: "0 \<le> k \<Longrightarrow> (c + 1) # [c + 1 + 1..c + 1 + k] = [c + 1..c + (1 + k)]"
  by (simp add: upto_rec1 [of "c + 1" "c + (1 + k)"] add.assoc)

lemma created_asset_ids_trace:
  "created_asset_ids (trace s rs) =
     map Some [asset_counter s + 1..asset_counter s + int (length (created_asset_ids (trace s rs)))]"
proof (induction rs arbitrary: s)
  case Nil
  show ?case by simp
next
  case (Cons r rs)
  let ?s' = "snd (handle s r)"
  let ?tr = "trace ?s' rs"
  let ?k = "int (length (created_asset_ids ?tr))"
  have tr: "trace s (r # rs) = (r, fst (handle s r)) # ?tr"
    by simp
  from handle_asset_step [of s r ?tr] show ?case
  proof (elim disjE conjE)
    assume cnt: "asset_counter ?s' = asset_counter s + 1"
      and new: "created_asset_ids ((r, fst (handle s r)) # ?tr) =
                  Some (asset_counter s + 1) # created_asset_ids ?tr"
    have "created_asset_ids ?tr = map Some [asset_counter s + 1 + 1..asset_counter s + 1 + ?k]"
      using Cons.IH [of ?s'] cnt by simp
    with new have eq: "created_asset_ids ((r, fst (handle s r)) # ?tr) =
        map Some ((asset_counter s + 1) # [asset_counter s + 1 + 1..asset_counter s + 1 + ?k])"
      by simp
    have len: "int (length (created_asset_ids ((r, fst (handle s r)) # ?tr))) = 1 + ?k"
      by (simp add: new)
    show ?thesis
      unfolding tr len using eq by (simp only: upto_from_shift [of ?k] of_nat_0_le_iff)
  next
    assume cnt: "asset_counter ?s' = asset_counter s"
      and same: "created_asset_ids ((r, fst (handle s r)) # ?tr) = created_asset_ids ?tr"
    show ?thesis
      unfolding tr same using Cons.IH [of ?s'] cnt by simp
  qed
qed

lemma created_pnft_ids_trace:
  "created_pnft_ids (trace s rs) =
     map Some [pnft_counter s + 1..pnft_counter s + int (length (created_pnft_ids (trace s rs)))]"
proof (induction rs arbitrary: s)
  case Nil
  show ?case by simp
next
  case (Cons r rs)
  let ?s' = "snd (handle s r)"
  let ?tr = "trace ?s' rs"
  let ?k = "int (length (created_pnft_ids ?tr))"
  have tr: "trace s (r # rs) = (r, fst (handle s r)) # ?tr"
    by simp
  from handle_pnft_step [of s r ?tr] show ?case
  proof (elim disjE conjE)
    assume cnt: "pnft_counter ?s' = pnft_counter s + 1"
      and new: "created_pnft_ids ((r, fst (handle s r)) # ?tr) =
                  Some (pnft_counter s + 1) # created_pnft_ids ?tr"
    have "created_pnft_ids ?tr = map Some [pnft_counter s + 1 + 1..pnft_counter s + 1 + ?k]"
      using Cons.IH [of ?s'] cnt by simp
    with new have eq: "created_pnft_ids ((r, fst (handle s r)) # ?tr) =
        map Some ((pnft_counter s + 1) # [pnft_counter s + 1 + 1..pnft_counter s + 1 + ?k])"
      by simp
    have len: "int (length (created_pnft_ids ((r, fst (handle s r)) # ?tr))) = 1 + ?k"
      by (simp add: new)
    show ?thesis
      unfolding tr len using eq by (simp only: upto_from_shift [of ?k] of_nat_0_le_iff)
  next
    assume cnt: "pnft_counter ?s' = pnft_counter s"
      and same: "created_pnft_ids ((r, fst (handle s r)) # ?tr) = created_pnft_ids ?tr"
    show ?thesis
      unfolding tr same using Cons.IH [of ?s'] cnt by simp
  qed
qed

text \<open>Records are only ever appended: the ids in a store are the old ones, then the created ones.\<close>

lemma assets_db_ids_run:
  "map a_id (assets_db (run s rs)) = map a_id (assets_db s) @ created_asset_ids (trace s rs)"
proof (induction rs arbitrary: s)
  case Nil
  show ?case by simp
next
  case (Cons r rs)
  have tr: "trace s (r # rs) = (r, fst (handle s r)) # trace (snd (handle s r)) rs"
    by simp
  have rn: "run s (r # rs) = run (snd (handle s r)) rs"
    by simp
  from handle_asset_step [of s r "trace (snd (handle s r)) rs"] show ?case
    unfolding tr rn by (elim disjE conjE) (simp_all only: Cons.IH append_assoc append_Cons append_Nil)
qed

lemma pnfts_db_ids_run:
  "map p_id (pnfts_db (run s rs)) = map p_id (pnfts_db s) @ created_pnft_ids (trace s rs)"
proof (induction rs arbitrary: s)
  case Nil
  show ?case by simp
next
  case (Cons r rs)
  have tr: "trace s (r # rs) = (r, fst (handle s r)) # trace (snd (handle s r)) rs"
    by simp
  have rn: "run s (r # rs) = run (snd (handle s r)) rs"
    by simp
  from handle_pnft_step [of s r "trace (snd (handle s r)) rs"] show ?case
    unfolding tr rn by (elim disjE conjE) (simp_all only: Cons.IH append_assoc append_Cons append_Nil)
qed

lemma asset_ids_reachable:
  "map a_id (assets_db (run init rs)) = map Some [1..int (length (assets_db (run init rs)))]"
proof -
  have ids: "map a_id (assets_db (run init rs)) = created_asset_ids (trace init rs)"
    by (simp add: assets_db_ids_run init_def)
  have "length (assets_db (run init rs)) = length (created_asset_ids (trace init rs))"
    using arg_cong [OF ids, of length] by simp
  with ids created_asset_ids_trace [of init rs] show ?thesis
    by (simp add: init_def)
qed

lemma pnft_ids_reachable:
  "map p_id (pnfts_db (run init rs)) = map Some [1..int (length (pnfts_db (run init rs)))]"
proof -
  have ids: "map p_id (pnfts_db (run init rs)) = created_pnft_ids (trace init rs)"
    by (simp add: pnfts_db_ids_run init_def)
  have "length (pnfts_db (run init rs)) = length (created_pnft_ids (trace init rs))"
    using arg_cong [OF ids, of length] by simp
  with ids created_pnft_ids_trace [of init rs] show ?thesis
    by (simp add: init_def)
qed

lemma asset_counter_run:
  "asset_counter (run s rs) = asset_counter s + int (length (created_asset_ids (trace s rs)))"
proof (induction rs arbitrary: s)
  case Nil
  show ?case by simp
next
  case (Cons r rs)
  have tr: "trace s (r # rs) = (r, fst (handle s r)) # trace (snd (handle s r)) rs"
    by simp
  have rn: "run s (r # rs) = run (snd (handle s r)) rs"
    by simp
  from handle_asset_step [of s r "trace (snd (handle s r)) rs"] show ?case
    unfolding tr rn by (elim disjE conjE) (simp_all add: Cons.IH del: handle.simps)
qed

lemma pnft_counter_run:
  "pnft_counter (run s rs) = pnft_counter s + int (length (created_pnft_ids (trace s rs)))"
proof (induction rs arbitrary: s)
  case Nil
  show ?case by simp
next
  case (Cons r rs)
  have tr: "trace s (r # rs) = (r, fst (handle s r)) # trace (snd (handle s r)) rs"
    by simp
  have rn: "run s (r # rs) = run (snd (handle s r)) rs"
    by simp
  from handle_pnft_step [of s r "trace (snd (handle s r)) rs"] show ?case
    unfolding tr rn by (elim disjE conjE) (simp_all add: Cons.IH del: handle.simps)
qed

section \<open>Sequential identifiers\<close>

text \<open>
  Claim C4. From the start of the process, the ids handed out by the successful asset
  creations of any sequence of requests are, in the order of creation, 1, 2, 3, ...:
  positive, starting at 1, each strictly greater than all ids handed out before it, and
  none handed out twice; they are the ids found in the asset store, in the order of
  the store. The same holds for the pNFT creations and the pNFT store.
\<close>

theorem created_ids_sequential:
  "created_asset_ids (trace init rs) =
     map Some [1..int (length (created_asset_ids (trace init rs)))]
   \<and> sorted_wrt (<) (map the (created_asset_ids (trace init rs)))
   \<and> distinct (created_asset_ids (trace init rs))
   \<and> map a_id (assets_db (run init rs)) = created_asset_ids (trace init rs)
   \<and> created_pnft_ids (trace init rs) =
     map Some [1..int (length (created_pnft_ids (trace init rs)))]
   \<and> sorted_wrt (<) (map the (created_pnft_ids (trace init rs)))
   \<and> distinct (created_pnft_ids (trace init rs))
   \<and> map p_id (pnfts_db (run init rs)) = created_pnft_ids (trace init rs)"
proof -
  let ?A = "created_asset_ids (trace init rs)"
  let ?P = "created_pnft_ids (trace init rs)"
  have A: "?A = map Some [1..int (length ?A)]"
    using created_asset_ids_trace [of init rs] by (simp add: init_def)
  have P: "?P = map Some [1..int (length ?P)]"
    using created_pnft_ids_trace [of init rs] by (simp add: init_def)
  have A_the: "map the ?A = [1..int (length ?A)]"
    using arg_cong [OF A, of "map the"] by (simp add: comp_def)
  have P_the: "map the ?P = [1..int (length ?P)]"
    using arg_cong [OF P, of "map the"] by (simp add: comp_def)
  have A_sorted: "sorted_wrt (<) (map the ?A)"
    unfolding A_the by simp
  have P_sorted: "sorted_wrt (<) (map the ?P)"
    unfolding P_the by simp
  have A_distinct: "distinct ?A"
    using distinct_upto [of 1 "int (length ?A)"] A_the by (metis distinct_map)
  have P_distinct: "distinct ?P"
    using distinct_upto [of 1 "int (length ?P)"] P_the by (metis distinct_map)
  have A_db: "map a_id (assets_db (run init rs)) = ?A"
    by (simp add: assets_db_ids_run init_def)
  have P_db: "map p_id (pnfts_db (run init rs)) = ?P"
    by (simp add: pnfts_db_ids_run init_def)
  from A A_sorted A_distinct A_db P P_sorted P_distinct P_db show ?thesis
    by blast
qed

lemma upto_1_2: "[1..2] = [1, 2::int]"
  by (simp add: upto_rec1)

theorem created_ids_sequential_witness:
  "created_asset_ids (trace init gap_requests) = [Some 1, Some 2]
   \<and> created_pnft_ids (trace init gap_requests) = [Some 1, Some 2]
   \<and> map a_id (assets_db (run init gap_requests)) = [Some 1, Some 2]
   \<and> map p_id (pnfts_db (run init gap_requests)) = [Some 1, Some 2]"
proof -
  have a: "length (created_asset_ids (trace init gap_requests)) = 2"
    by (simp add: gap_requests_def init_def to_bob_def alice_watch_def alice_token_def
        orphan_token_def create_asset_def create_pnft_def transfer_pnft_def get_pnft_def Let_def)
  have p: "length (created_pnft_ids (trace init gap_requests)) = 2"
    by (simp add: gap_requests_def init_def to_bob_def alice_watch_def alice_token_def
        orphan_token_def create_asset_def create_pnft_def transfer_pnft_def get_pnft_def Let_def)
  show ?thesis
    using created_ids_sequential [of gap_requests] unfolding a p by (simp add: upto_1_2)
qed

text \<open>
  Claim C10. A failed pNFT creation leaves the pNFT counter where it was, and after
  any sequence of requests the ids of the stored pNFTs are 1, ..., n in store order,
  where n is the number of stored pNFTs and the value of the pNFT counter; likewise
  for the assets.
\<close>

theorem stored_ids_consecutive:
  "(get_asset_by_id (assets_db s) (pc_asset_id pnft) = None \<longrightarrow>
      pnft_counter (snd (create_pnft s pnft now)) = pnft_counter s)
   \<and> map p_id (pnfts_db (run init rs)) = map Some [1..int (length (pnfts_db (run init rs)))]
   \<and> pnft_counter (run init rs) = int (length (pnfts_db (run init rs)))
   \<and> map a_id (assets_db (run init rs)) = map Some [1..int (length (assets_db (run init rs)))]
   \<and> asset_counter (run init rs) = int (length (assets_db (run init rs)))"
proof -
  have fail: "get_asset_by_id (assets_db s) (pc_asset_id pnft) = None \<longrightarrow>
      pnft_counter (snd (create_pnft s pnft now)) = pnft_counter s"
    by (simp add: create_pnft_def)
  have "length (map p_id (pnfts_db (run init rs))) = length (created_pnft_ids (trace init rs))"
    by (simp only: pnfts_db_ids_run) (simp add: init_def)
  then have pc: "pnft_counter (run init rs) = int (length (pnfts_db (run init rs)))"
    by (simp add: pnft_counter_run init_def)
  have "length (map a_id (assets_db (run init rs))) = length (created_asset_ids (trace init rs))"
    by (simp only: assets_db_ids_run) (simp add: init_def)
  then have ac: "asset_counter (run init rs) = int (length (assets_db (run init rs)))"
    by (simp add: asset_counter_run init_def)
  from fail pc ac pnft_ids_reachable [of rs] asset_ids_reachable [of rs] show ?thesis
    by blast
qed

lemma run_gap_requests:
  "run init gap_requests =
     \<lparr>assets_db = [sample_asset, sample_asset\<lparr>a_id := Some 2\<rparr>],
      pnfts_db = [sample_pnft\<lparr>p_issued_date := ''2024-01-02T00:00:00'', p_current_owner := ''Bob''\<rparr>,
                  sample_pnft\<lparr>p_id := Some 2, p_issued_date := ''2024-01-03T00:00:00''\<rparr>],
      asset_counter = 2, pnft_counter = 2\<rparr>"
  by (simp add: gap_requests_def sample_asset_def sample_pnft_def init_def to_bob_def
      alice_watch_def alice_token_def orphan_token_def create_asset_def create_pnft_def
      transfer_pnft_def Let_def)

theorem stored_ids_consecutive_witness:
  "get_asset_by_id (assets_db sample_state) (pc_asset_id orphan_token) = None
   \<and> pnft_counter (snd (create_pnft sample_state orphan_token ''2024-01-02T00:00:00'')) = 1
   \<and> map p_id (pnfts_db (run init gap_requests)) = [Some 1, Some 2]
   \<and> pnft_counter (run init gap_requests) = 2
   \<and> map a_id (assets_db (run init gap_requests)) = [Some 1, Some 2]
   \<and> asset_counter (run init gap_requests) = 2"
proof -
  have h: "get_asset_by_id (assets_db sample_state) (pc_asset_id orphan_token) = None"
    by (simp add: sample_state_def sample_asset_def orphan_token_def)
  show ?thesis
    using h stored_ids_consecutive [of sample_state orphan_token "''2024-01-02T00:00:00''" gap_requests]
    by (simp add: run_gap_requests upto_1_2 sample_state_def sample_asset_def sample_pnft_def)
qed

section \<open>Referential integrity\<close>

lemma handle_assets_grow:
  "set (map a_id (assets_db s)) \<subseteq> set (map a_id (assets_db (snd (handle s r))))"
proof -
  from handle_asset_step [of s r "[]"]
  have "map a_id (assets_db (snd (handle s r))) = map a_id (assets_db s) @ [Some (asset_counter s + 1)]
      \<or> map a_id (assets_db (snd (handle s r))) = map a_id (assets_db s)"
    by blast
  then show ?thesis
  proof
    assume e: "map a_id (assets_db (snd (handle s r))) = map a_id (assets_db s) @ [Some (asset_counter s + 1)]"
    show ?thesis unfolding e by auto
  next
    assume e: "map a_id (assets_db (snd (handle s r))) = map a_id (assets_db s)"
    show ?thesis unfolding e by simp
  qed
qed

lemma handle_pnft_asset_ids:
  "set (map p_asset_id (pnfts_db (snd (handle s r)))) \<subseteq>
     set (map p_asset_id (pnfts_db s)) \<union> {i. Some i \<in> set (map a_id (assets_db s))}"
proof (cases r)
  case (ReqCreatePnft c now)
  then show ?thesis
    using get_asset_by_id_None [of "assets_db s" "pc_asset_id c"]
    by (auto simp: create_pnft_def Let_def split: option.splits)
next
  case (ReqTransferPnft i t)
  then show ?thesis
    using map_p_asset_id_assign [of "pnfts_db s" i "new_owner t"]
    by (auto simp: transfer_pnft_def Let_def store_pnft_after_assign simp del: set_map
        split: option.splits)
qed (auto simp: create_asset_def Let_def)

lemma references_run:
  "set (map p_asset_id (pnfts_db s)) \<subseteq> {i. Some i \<in> set (map a_id (assets_db s))} \<Longrightarrow>
   set (map p_asset_id (pnfts_db (run s rs))) \<subseteq> {i. Some i \<in> set (map a_id (assets_db (run s rs)))}"
proof (induction rs arbitrary: s)
  case Nil
  then show ?case by simp
next
  case (Cons r rs)
  have "set (map p_asset_id (pnfts_db (snd (handle s r)))) \<subseteq>
          {i. Some i \<in> set (map a_id (assets_db (snd (handle s r))))}"
    using handle_pnft_asset_ids [of s r] handle_assets_grow [of s r] Cons.prems by blast
  from Cons.IH [OF this] show ?case by simp
qed

text \<open>
  Claim C5. In every state reached from the start of the process by a sequence of
  requests, each stored pNFT has an \<open>asset_id\<close> that is the id of an asset in the asset
  store.
\<close>

theorem pnft_references_asset:
  "\<forall>pnft \<in> set (pnfts_db (run init rs)).
     \<exists>asset \<in> set (assets_db (run init rs)). a_id asset = Some (p_asset_id pnft)"
proof
  fix pnft assume "pnft \<in> set (pnfts_db (run init rs))"
  then have "p_asset_id pnft \<in> set (map p_asset_id (pnfts_db (run init rs)))"
    by simp
  with references_run [of init rs]
  have "Some (p_asset_id pnft) \<in> set (map a_id (assets_db (run init rs)))"
    by (auto simp: init_def)
  then show "\<exists>asset \<in> set (assets_db (run init rs)). a_id asset = Some (p_asset_id pnft)"
    by auto
qed

theorem pnft_references_asset_witness:
  "pnfts_db (run init gap_requests) \<noteq> []
   \<and> list_all
        (\<lambda>pnft. list_ex (\<lambda>asset. a_id asset = Some (p_asset_id pnft))
                   (assets_db (run init gap_requests)))
        (pnfts_db (run init gap_requests))
   \<and> map p_asset_id (pnfts_db (run init gap_requests)) = [1, 1]"
proof -
  have ne: "pnfts_db (run init gap_requests) \<noteq> []"
    by (simp add: run_gap_requests)
  have ids: "map p_asset_id (pnfts_db (run init gap_requests)) = [1, 1]"
    by (simp add: run_gap_requests sample_pnft_def)
  from ne ids pnft_references_asset [of gap_requests] show ?thesis
    by (simp only: list_all_iff list_ex_iff) blast
qed

section \<open>Creating and fetching an asset\<close>



section \<open>The generated token URI\<close>

lemma length_hex_fixed: "length (hex_fixed w n) = w"
  by (induction w arbitrary: n) auto

lemma hex_digit_in: "hex_digit d \<in> set hex_chars"
  unfolding hex_digit_def by (rule nth_mem) (simp add: hex_chars_def)

lemma set_hex_fixed: "set (hex_fixed w n) \<subseteq> set hex_chars"
  by (induction w arbitrary: n) (auto simp: hex_digit_in)

lemma hyphen_not_hex: "CHR ''-'' \<notin> set hex_chars"
  by (simp add: hex_chars_def)

lemma replace_hyphens_hex: "set h \<subseteq> set hex_chars \<Longrightarrow> replace_hyphens h = h"
  unfolding replace_hyphens_def using hyphen_not_hex by (intro filter_True) auto

lemma replace_hyphens_append: "replace_hyphens (a @ b) = replace_hyphens a @ replace_hyphens b"
  by (simp add: replace_hyphens_def)

lemma replace_hyphens_hyphen: "replace_hyphens (CHR ''-'' # b) = replace_hyphens b"
  by (simp add: replace_hyphens_def)

lemma regroup:
  "take 8 h @ take 4 (drop 8 h) @ take 4 (drop 12 h) @ take 4 (drop 16 h) @ drop 20 h = h"
proof -
  have a: "take 4 (drop 16 h) @ drop 20 h = drop 16 h"
    using append_take_drop_id [of 4 "drop 16 h"] by simp
  have b: "take 4 (drop 12 h) @ drop 16 h = drop 12 h"
    using append_take_drop_id [of 4 "drop 12 h"] by simp
  have c: "take 4 (drop 8 h) @ drop 12 h = drop 8 h"
    using append_take_drop_id [of 4 "drop 8 h"] by simp
  show ?thesis by (simp only: a b c append_take_drop_id)
qed

text \<open>Deleting the hyphens of the printed UUID gives back its 32 hexadecimal digits.\<close>

lemma replace_hyphens_str_uuid: "replace_hyphens (str_uuid u) = hex32 u"
proof -
  have sub: "\<And>xs. set xs \<subseteq> set (hex32 u) \<Longrightarrow> replace_hyphens xs = xs"
    using set_hex_fixed [of 32 "unat u"] by (intro replace_hyphens_hex) (auto simp: hex32_def)
  have "replace_hyphens (str_uuid u) =
      take 8 (hex32 u) @ take 4 (drop 8 (hex32 u)) @ take 4 (drop 12 (hex32 u))
        @ take 4 (drop 16 (hex32 u)) @ drop 20 (hex32 u)"
    by (simp add: str_uuid_def Let_def replace_hyphens_append replace_hyphens_hyphen sub
        set_take_subset set_drop_subset subset_trans [OF set_take_subset set_drop_subset])
  then show ?thesis by (simp only: regroup)
qed

lemma hex_fixed_numeral:
  "hex_fixed (numeral k) n = hex_fixed (pred_numeral k) (n div 16) @ [hex_digit (n mod 16)]"
  by (simp only: numeral_eq_Suc [of k] hex_fixed.simps)

text \<open>
  Claim C7 asks for 44 characters after \<^verbatim>\<open>ipfs://Qm\<close>. What \<open>generate_token_uri\<close>
  returns, for every UUID, is \<^verbatim>\<open>ipfs://Qm\<close> followed by the 32 hexadecimal digits of the
  UUID: the slice \<^verbatim>\<open>[:44]\<close> cuts nothing off a string of 32 characters, and the result
  has 41 characters where the claim needs 53.
\<close>

theorem generate_token_uri_digits:
  "generate_token_uri u = ''ipfs://Qm'' @ hex32 u
   \<and> length (hex32 u) = 32
   \<and> list_all (\<lambda>c. c \<in> set hex_chars) (hex32 u)
   \<and> length (generate_token_uri u) = 41"
proof -
  have len: "length (hex32 u) = 32"
    by (simp add: hex32_def length_hex_fixed)
  have uri: "generate_token_uri u = ''ipfs://Qm'' @ hex32 u"
    by (simp add: generate_token_uri_def replace_hyphens_str_uuid len)
  have hex: "list_all (\<lambda>c. c \<in> set hex_chars) (hex32 u)"
    using set_hex_fixed [of 32 "unat u"] by (auto simp: hex32_def list_all_iff)
  from len uri hex show ?thesis by simp
qed

theorem generate_token_uri_sample:
  "generate_token_uri sample_uuid = ''ipfs://Qm123e4567e89b42d3a456426614174000''
   \<and> length (generate_token_uri sample_uuid) = 41"
proof -
  have "hex32 sample_uuid = ''123e4567e89b42d3a456426614174000''"
    by (simp add: sample_uuid_def hex32_def hex_fixed_numeral hex_digit_def hex_chars_def)
  with generate_token_uri_digits [of sample_uuid] show ?thesis by simp
qed

section \<open>Errors\<close>

lemma str_nat_not_Nil: "str_nat n \<noteq> []"
  by (subst str_nat.simps) simp

lemma dec_digit_inject: "a < 10 \<Longrightarrow> b < 10 \<Longrightarrow> dec_digit a = dec_digit b \<Longrightarrow> a = b"
proof -
  assume a: "a < 10" and b: "b < 10" and e: "dec_digit a = dec_digit b"
  have d: "distinct dec_chars"
    by (simp add: dec_chars_def)
  have l: "length dec_chars = 10"
    by (simp add: dec_chars_def)
  from e a b have "dec_chars ! a = dec_chars ! b"
    by (simp add: dec_digit_def)
  with d l a b show "a = b"
    by (simp add: nth_eq_iff_index_eq)
qed

lemma dec_digit_not_minus: "dec_digit d \<noteq> CHR ''-''"
proof -
  have "dec_digit d \<in> set dec_chars"
    unfolding dec_digit_def by (rule nth_mem) (simp add: dec_chars_def)
  then show ?thesis by (auto simp: dec_chars_def)
qed

lemma minus_not_in_str_nat: "CHR ''-'' \<notin> set (str_nat n)"
proof (induction n rule: str_nat.induct)
  case (1 n)
  show ?case
  proof (cases "n < 10")
    case True
    then show ?thesis
      using dec_digit_not_minus [of n] by (subst str_nat.simps) auto
  next
    case False
    then show ?thesis
      using 1 dec_digit_not_minus [of "n mod 10"] by (subst str_nat.simps) auto
  qed
qed

lemma str_nat_inject: "str_nat m = str_nat n \<Longrightarrow> m = n"
proof (induction m arbitrary: n rule: str_nat.induct)
  case (1 m)
  have sm: "str_nat m = (if m < 10 then [dec_digit m] else str_nat (m div 10) @ [dec_digit (m mod 10)])"
    by (subst str_nat.simps) simp
  have sn: "str_nat n = (if n < 10 then [dec_digit n] else str_nat (n div 10) @ [dec_digit (n mod 10)])"
    by (subst str_nat.simps) simp
  show ?case
  proof (cases "m < 10")
    case m: True
    show ?thesis
    proof (cases "n < 10")
      case True
      with m "1.prems" sm sn show ?thesis
        by (auto dest: dec_digit_inject)
    next
      case False
      with m "1.prems" sm sn str_nat_not_Nil [of "n div 10"] show ?thesis
        by auto
    qed
  next
    case m: False
    show ?thesis
    proof (cases "n < 10")
      case True
      with m "1.prems" sm sn str_nat_not_Nil [of "m div 10"] show ?thesis
        by auto
    next
      case False
      with m "1.prems" sm sn
      have q: "str_nat (m div 10) = str_nat (n div 10)"
        and r: "dec_digit (m mod 10) = dec_digit (n mod 10)"
        by auto
      from "1.IH" [OF m q] have "m div 10 = n div 10" .
      moreover from r have "m mod 10 = n mod 10"
        by (rule dec_digit_inject [rotated 2]) simp_all
      ultimately show ?thesis
        by (metis div_mult_mod_eq)
    qed
  qed
qed

text \<open>The decimal text determines the integer: a message names exactly one id.\<close>

lemma str_int_inject: "str_int i = str_int j \<Longrightarrow> i = j"
proof -
  assume e: "str_int i = str_int j"
  have first: "\<And>n. hd (str_nat n) \<noteq> CHR ''-''"
    using minus_not_in_str_nat str_nat_not_Nil by (metis hd_in_set)
  have cons: "\<And>m n. CHR ''-'' # str_nat m \<noteq> str_nat n"
    using first by (metis list.sel(1))
  show "i = j"
  proof (cases "i < 0")
    case i: True
    show ?thesis
    proof (cases "j < 0")
      case True
      with i e have "nat (- i) = nat (- j)"
        by (auto simp: str_int_def dest: str_nat_inject)
      with i True show ?thesis by simp
    next
      case False
      with i e cons [of "nat (- i)" "nat j"] show ?thesis
        by (simp add: str_int_def)
    qed
  next
    case i: False
    show ?thesis
    proof (cases "j < 0")
      case True
      with i e cons [of "nat (- j)" "nat i"] show ?thesis
        by (simp add: str_int_def)
    next
      case False
      with i e have "nat i = nat j"
        by (auto simp: str_int_def dest: str_nat_inject)
      with i False show ?thesis by simp
    qed
  qed
qed

text \<open>
  Claim C8. A request fails exactly when it names an id that no record of the store
  carries: creating a pNFT for an asset id absent from the asset store, getting an asset
  with such an id, or getting or transferring a pNFT with an id absent from the pNFT
  store. Every other request succeeds, whatever its arguments; in particular a request
  that names a stored id is accepted. A failure is the HTTP exception with status 404
  whose detail spells the missing id in decimal, and it leaves the state as it was.
\<close>

theorem handle_errors_not_found:
  "(isl (fst (handle s r)) \<longleftrightarrow>
      (case r of
         ReqCreatePnft c now \<Rightarrow> Some (pc_asset_id c) \<notin> set (map a_id (assets_db s))
       | ReqGetPnft i \<Rightarrow> Some i \<notin> set (map p_id (pnfts_db s))
       | ReqTransferPnft i t \<Rightarrow> Some i \<notin> set (map p_id (pnfts_db s))
       | ReqGetAsset i \<Rightarrow> Some i \<notin> set (map a_id (assets_db s))
       | _ \<Rightarrow> False))
   \<and> (\<forall>e. fst (handle s r) = Inl e \<longrightarrow>
         status_code e = 404 \<and> snd (handle s r) = s
       \<and> (case r of
            ReqCreatePnft c now \<Rightarrow>
              detail e = ''Asset with ID '' @ str_int (pc_asset_id c) @ '' not found''
          | ReqGetPnft i \<Rightarrow> detail e = ''pNFT with ID '' @ str_int i @ '' not found''
          | ReqTransferPnft i t \<Rightarrow> detail e = ''pNFT with ID '' @ str_int i @ '' not found''
          | ReqGetAsset i \<Rightarrow> detail e = ''Asset with ID '' @ str_int i @ '' not found''
          | _ \<Rightarrow> False))"
proof -
  have assets: "\<And>i. (Some i \<notin> set (map a_id (assets_db s))) =
                      (get_asset_by_id (assets_db s) i = None)"
    by (simp only: get_asset_by_id_None)
  have pnfts: "\<And>i. (Some i \<notin> set (map p_id (pnfts_db s))) =
                     (get_pnft_by_id (pnfts_db s) i = None)"
    by (simp only: get_pnft_by_id_None)
  show ?thesis
    unfolding assets pnfts
    by (cases r)
       (auto simp: create_asset_def create_pnft_def transfer_pnft_def get_pnft_def get_asset_def
             Let_def split: option.splits)
qed

theorem handle_errors_not_found_witness:
  "Some 5 \<notin> set (map p_id (pnfts_db sample_state))
   \<and> handle sample_state (ReqGetPnft 5) =
     (Inl (HTTPException 404 ''pNFT with ID 5 not found''), sample_state)
   \<and> handle sample_state (ReqTransferPnft (- 3) to_bob) =
     (Inl (HTTPException 404 ''pNFT with ID -3 not found''), sample_state)
   \<and> Some 7 \<notin> set (map a_id (assets_db sample_state))
   \<and> handle sample_state (ReqCreatePnft orphan_token ''2024-01-02T00:00:00'') =
     (Inl (HTTPException 404 ''Asset with ID 7 not found''), sample_state)
   \<and> handle sample_state (ReqGetAsset 12) =
     (Inl (HTTPException 404 ''Asset with ID 12 not found''), sample_state)
   \<and> Some 1 \<in> set (map a_id (assets_db sample_state))
   \<and> handle sample_state (ReqGetAsset 1) = (Inr (RespAsset sample_asset), sample_state)
   \<and> \<not> isl (fst (handle sample_state (ReqCreatePnft alice_token ''2024-01-02T00:00:00'')))
   \<and> Some 1 \<in> set (map p_id (pnfts_db sample_state))
   \<and> handle sample_state (ReqGetPnft 1) = (Inr (RespPnft sample_pnft), sample_state)
   \<and> \<not> isl (fst (handle sample_state (ReqTransferPnft 1 to_bob)))
   \<and> \<not> isl (fst (handle sample_state (ReqListPnfts (Some ''nobody''))))
   \<and> \<not> isl (fst (handle sample_state (ReqCreateAsset alice_watch)))"
proof -
  have known_asset: "Some 1 \<in> set (map a_id (assets_db sample_state))"
    by (simp add: sample_state_def sample_asset_def)
  have known_pnft: "Some 1 \<in> set (map p_id (pnfts_db sample_state))"
    by (simp add: sample_state_def sample_pnft_def)
  have a1: "pc_asset_id alice_token = 1"
    by (simp add: alice_token_def)
  have ok_get_asset: "\<not> isl (fst (handle sample_state (ReqGetAsset 1)))"
    using handle_errors_not_found [of sample_state "ReqGetAsset 1"] known_asset
    by (simp del: handle.simps set_map)
  have ok_create: "\<not> isl (fst (handle sample_state (ReqCreatePnft alice_token ''2024-01-02T00:00:00'')))"
    using handle_errors_not_found [of sample_state "ReqCreatePnft alice_token ''2024-01-02T00:00:00''"]
      known_asset a1
    by (simp del: handle.simps set_map)
  have ok_get_pnft: "\<not> isl (fst (handle sample_state (ReqGetPnft 1)))"
    using handle_errors_not_found [of sample_state "ReqGetPnft 1"] known_pnft
    by (simp del: handle.simps set_map)
  have ok_transfer: "\<not> isl (fst (handle sample_state (ReqTransferPnft 1 to_bob)))"
    using handle_errors_not_found [of sample_state "ReqTransferPnft 1 to_bob"] known_pnft
    by (simp del: handle.simps set_map)
  have ok_list: "\<not> isl (fst (handle sample_state (ReqListPnfts (Some ''nobody''))))"
    using handle_errors_not_found [of sample_state "ReqListPnfts (Some ''nobody'')"]
    by (simp del: handle.simps)
  have ok_asset: "\<not> isl (fst (handle sample_state (ReqCreateAsset alice_watch)))"
    using handle_errors_not_found [of sample_state "ReqCreateAsset alice_watch"]
    by (simp del: handle.simps)
  have got_asset: "handle sample_state (ReqGetAsset 1) = (Inr (RespAsset sample_asset), sample_state)"
    using ok_get_asset
    by (simp add: sample_state_def sample_asset_def get_asset_def)
  have got_pnft: "handle sample_state (ReqGetPnft 1) = (Inr (RespPnft sample_pnft), sample_state)"
    using ok_get_pnft
    by (simp add: sample_state_def sample_pnft_def get_pnft_def)
  have missing:
    "Some 5 \<notin> set (map p_id (pnfts_db sample_state))
     \<and> handle sample_state (ReqGetPnft 5) =
       (Inl (HTTPException 404 ''pNFT with ID 5 not found''), sample_state)
     \<and> handle sample_state (ReqTransferPnft (- 3) to_bob) =
       (Inl (HTTPException 404 ''pNFT with ID -3 not found''), sample_state)
     \<and> Some 7 \<notin> set (map a_id (assets_db sample_state))
     \<and> handle sample_state (ReqCreatePnft orphan_token ''2024-01-02T00:00:00'') =
       (Inl (HTTPException 404 ''Asset with ID 7 not found''), sample_state)
     \<and> handle sample_state (ReqGetAsset 12) =
       (Inl (HTTPException 404 ''Asset with ID 12 not found''), sample_state)"
    using handle_errors_not_found [of sample_state "ReqGetPnft 5"]
      handle_errors_not_found [of sample_state "ReqTransferPnft (- 3) to_bob"]
      handle_errors_not_found [of sample_state "ReqCreatePnft orphan_token ''2024-01-02T00:00:00''"]
      handle_errors_not_found [of sample_state "ReqGetAsset 12"]
    by (simp add: sample_state_def sample_pnft_def sample_asset_def orphan_token_def
        create_pnft_def transfer_pnft_def get_pnft_def get_asset_def
        str_int_def str_nat.simps dec_digit_def dec_chars_def)
  from missing known_asset got_asset ok_create known_pnft got_pnft ok_transfer ok_list ok_asset
  show ?thesis by blast
qed

end
